theory Spec2Isabelle
  imports Complex_Main "HOL-Library.Signed_Division"
begin

section \<open>The expert advisor V-EA-LongerTrends\<close>

text \<open>
  The program is one MQL5 expert advisor: \<open>OnInit\<close> creates four indicator handles and
  \<open>OnTick\<close> is run by the terminal on every price tick. Everything it knows about the
  market it asks from the terminal, and everything it does is a call on the \<open>CTrade\<close>
  object or a line in the journal.

  \<^item> A \<open>double\<close> is modelled as a \<open>real\<close>: comparisons and arithmetic are exact, rounding
    of the binary floating-point format is not modelled.
  \<^item> A \<open>datetime\<close> is a number of seconds, an \<open>int\<close>; an \<open>int\<close> input is an \<open>int\<close>.
  \<^item> The terminal is a record of what its functions answer during one tick.
  \<^item> The calls on \<open>trade\<close> and the journal lines that report a decision are collected,
    in order, in a list of events. The journal lines that only dump indicator values
    (\<open>Print("Trend EMA Values: ", ...)\<close>) are left out of the list; their array reads
    are kept, because a read outside an array stops the program.
\<close>

subsection \<open>Data\<close>

datatype ENUM_TIMEFRAMES = PERIOD_H1 | PERIOD_D1

datatype ENUM_POSITION_TYPE = POSITION_TYPE_BUY | POSITION_TYPE_SELL

datatype ENUM_INIT_RETCODE = INIT_SUCCEEDED | INIT_FAILED

text \<open>The input parameters, fixed when the program starts.\<close>

record inputs =
  InpLotSize :: real
  InpStopLoss :: int
  InpTakeProfit :: int
  InpTrendPeriod :: int
  InpRSIPeriod :: int
  InpRSIUpperLevel :: real
  InpRSILowerLevel :: real
  InpMACDFastPeriod :: int
  InpMACDSlowPeriod :: int
  InpMACDSignalPeriod :: int
  InpRSIExitLevel :: real
  InpTrendExitPeriod :: int
  InpATRMultiplier :: real
  InpATRPeriod :: int
  InpMinHoldDuration :: int

definition default_inputs :: inputs where
  "default_inputs =
     \<lparr>InpLotSize = 0.1, InpStopLoss = 50, InpTakeProfit = 100, InpTrendPeriod = 20,
      InpRSIPeriod = 8, InpRSIUpperLevel = 60, InpRSILowerLevel = 40,
      InpMACDFastPeriod = 12, InpMACDSlowPeriod = 26, InpMACDSignalPeriod = 9,
      InpRSIExitLevel = 50, InpTrendExitPeriod = 100, InpATRMultiplier = 3.0,
      InpATRPeriod = 14, InpMinHoldDuration = 60\<rparr>"

text \<open>
  The position that \<open>PositionSelect(_Symbol)\<close> copies into the program at line 137,
  after the entry logic of the tick: the \<open>PositionGet...\<close> calls that follow read this
  copy, also after a \<open>trade.PositionClose\<close> of the same tick.
\<close>

record position =
  POSITION_TYPE :: ENUM_POSITION_TYPE
  POSITION_SL :: real
  POSITION_TP :: real
  POSITION_TIME :: int

text \<open>
  What the terminal answers during one tick. \<open>iMA\<close>, \<open>iRSI\<close>, \<open>iMACD\<close> and \<open>iATR\<close>
  return the handle of an indicator (an \<open>int\<close>, \<open>INVALID_HANDLE\<close> on failure), given
  the timeframe and the periods; the symbol, shift, method and applied price are the same
  at every call site. \<open>CopyBuffer t handle buffer_num start_pos count\<close> is the content of
  the destination array after the call: a dynamic array indexed as a series (index 0 the
  newest bar) that holds as many values as were copied, none when the call fails.
  \<open>PositionSelect\<close> is \<open>None\<close> when the call returns false, \<open>iTime\<close> is the open
  time of the current hourly bar.
\<close>

record terminal =
  SYMBOL_BID :: real
  SYMBOL_ASK :: real
  SYMBOL_POINT :: real
  iMA :: "ENUM_TIMEFRAMES \<Rightarrow> int \<Rightarrow> int"
  iRSI :: "ENUM_TIMEFRAMES \<Rightarrow> int \<Rightarrow> int"
  iMACD :: "ENUM_TIMEFRAMES \<Rightarrow> int \<Rightarrow> int \<Rightarrow> int \<Rightarrow> int"
  iATR :: "ENUM_TIMEFRAMES \<Rightarrow> int \<Rightarrow> int"
  CopyBuffer :: "int \<Rightarrow> nat \<Rightarrow> nat \<Rightarrow> nat \<Rightarrow> real list"
  iTime :: int
  PositionSelect :: "position option"
  TimeCurrent :: int

text \<open>The global variables, and the static \<open>prevBarTime\<close> of \<open>OnTick\<close>.\<close>

record globals =
  trendHandle :: int
  rsiHandle :: int
  macdHandle :: int
  atrHandle :: int
  prevBarTime :: int

text \<open>
  The calls on the \<open>CTrade\<close> object (\<open>Buy\<close> and \<open>Sell\<close> with volume, price, stop-loss
  and take-profit; \<open>PositionModify\<close> with stop-loss and take-profit) and the journal lines
  of the decisions (\<open>PrintValue\<close> for the two lines that end with the new stop).
\<close>

datatype event =
    Buy real real real real
  | Sell real real real real
  | PositionClose
  | PositionModify real real
  | Print string
  | PrintValue string real

datatype error = ArrayOutOfRange

text \<open>
  The result of one run of \<open>OnTick\<close>: whether it was stopped by a critical error, the
  events up to there, and the globals afterwards.
\<close>

record outcome =
  fault :: "error option"
  trace :: "event list"
  after :: globals

subsection \<open>Initialisation\<close>

definition INVALID_HANDLE :: int where
  "INVALID_HANDLE = - 1"

definition OnInit :: "inputs \<Rightarrow> terminal \<Rightarrow> ENUM_INIT_RETCODE \<times> globals" where
  "OnInit inp t =
     (let g = \<lparr>trendHandle = iMA t PERIOD_H1 (InpTrendPeriod inp),
               rsiHandle = iRSI t PERIOD_H1 (InpRSIPeriod inp),
               macdHandle = iMACD t PERIOD_H1 (InpMACDFastPeriod inp) (InpMACDSlowPeriod inp)
                              (InpMACDSignalPeriod inp),
               atrHandle = iATR t PERIOD_H1 (InpATRPeriod inp),
               prevBarTime = 0\<rparr>
      in if trendHandle g = INVALID_HANDLE \<or> rsiHandle g = INVALID_HANDLE
            \<or> macdHandle g = INVALID_HANDLE \<or> atrHandle g = INVALID_HANDLE
         then (INIT_FAILED, g)
         else (INIT_SUCCEEDED, g))"

subsection \<open>The tick function\<close>

text \<open>
  The arrays that \<open>OnTick\<close> fills, as functions of the globals and the terminal.
\<close>

definition trendValue :: "globals \<Rightarrow> terminal \<Rightarrow> real list" where
  "trendValue g t = CopyBuffer t (trendHandle g) 0 0 3"

definition rsiValue :: "globals \<Rightarrow> terminal \<Rightarrow> real list" where
  "rsiValue g t = CopyBuffer t (rsiHandle g) 0 0 3"

definition macdMain :: "globals \<Rightarrow> terminal \<Rightarrow> real list" where
  "macdMain g t = CopyBuffer t (macdHandle g) 0 0 3"

definition macdSignal :: "globals \<Rightarrow> terminal \<Rightarrow> real list" where
  "macdSignal g t = CopyBuffer t (macdHandle g) 1 0 3"

definition atrValue :: "globals \<Rightarrow> terminal \<Rightarrow> real list" where
  "atrValue g t = CopyBuffer t (atrHandle g) 0 0 1"

definition trendValueHigher :: "inputs \<Rightarrow> terminal \<Rightarrow> real list" where
  "trendValueHigher inp t = CopyBuffer t (iMA t PERIOD_D1 (InpTrendPeriod inp)) 0 0 3"

definition rsiValueHigher :: "inputs \<Rightarrow> terminal \<Rightarrow> real list" where
  "rsiValueHigher inp t = CopyBuffer t (iRSI t PERIOD_D1 (InpRSIPeriod inp)) 0 0 3"

text \<open>
  \<open>posDuration = (int)((TimeCurrent() - posOpenTime) / 60)\<close>: the division of integers
  truncates towards zero, and the cast keeps the low 32 bits as a signed number.
\<close>

definition to_int32 :: "int \<Rightarrow> int" where
  "to_int32 x = (x + 2 ^ 31) mod 2 ^ 32 - 2 ^ 31"

definition posDuration :: "terminal \<Rightarrow> position \<Rightarrow> int" where
  "posDuration t p = to_int32 ((TimeCurrent t - POSITION_TIME p) sdiv 60)"

text \<open>Lines 114 to 123: the long entry.\<close>

definition long_signal :: "inputs \<Rightarrow> globals \<Rightarrow> terminal \<Rightarrow> bool" where
  "long_signal inp g t \<longleftrightarrow>
     trendValue g t ! 0 > trendValue g t ! 1
     \<and> rsiValue g t ! 0 > InpRSILowerLevel inp \<and> rsiValue g t ! 1 \<le> InpRSILowerLevel inp"

definition long_entry :: "inputs \<Rightarrow> globals \<Rightarrow> terminal \<Rightarrow> event list" where
  "long_entry inp g t =
     (if long_signal inp g t
      then let sl = SYMBOL_BID t - real_of_int (InpStopLoss inp) * SYMBOL_POINT t;
               tp = SYMBOL_ASK t + real_of_int (InpTakeProfit inp) * SYMBOL_POINT t
           in [Buy (InpLotSize inp) (SYMBOL_ASK t) sl tp, Print ''Long position opened'']
      else [])"

text \<open>Lines 125 to 134: the short entry.\<close>

definition short_signal :: "inputs \<Rightarrow> globals \<Rightarrow> terminal \<Rightarrow> bool" where
  "short_signal inp g t \<longleftrightarrow>
     trendValue g t ! 0 < trendValue g t ! 1
     \<and> rsiValue g t ! 0 < InpRSIUpperLevel inp \<and> rsiValue g t ! 1 \<ge> InpRSIUpperLevel inp"

definition short_entry :: "inputs \<Rightarrow> globals \<Rightarrow> terminal \<Rightarrow> event list" where
  "short_entry inp g t =
     (if short_signal inp g t
      then let sl = SYMBOL_ASK t + real_of_int (InpStopLoss inp) * SYMBOL_POINT t;
               tp = SYMBOL_BID t - real_of_int (InpTakeProfit inp) * SYMBOL_POINT t
           in [Sell (InpLotSize inp) (SYMBOL_BID t) sl tp, Print ''Short position opened'']
      else [])"

text \<open>
  Line 176 and line 209: \<open>double trendExitValue = iMA(_Symbol, PERIOD_D1,
  InpTrendExitPeriod, 0, MODE_EMA, PRICE_CLOSE)\<close>. The variable receives what \<open>iMA\<close>
  returns, the handle, converted to \<open>double\<close>.
\<close>

definition trendExitValue :: "inputs \<Rightarrow> terminal \<Rightarrow> real" where
  "trendExitValue inp t = real_of_int (iMA t PERIOD_D1 (InpTrendExitPeriod inp))"

text \<open>Lines 162 to 194: the management of a long position.\<close>

definition long_rsi_exit :: "inputs \<Rightarrow> terminal \<Rightarrow> bool" where
  "long_rsi_exit inp t \<longleftrightarrow>
     rsiValueHigher inp t ! 0 > InpRSIExitLevel inp
     \<and> rsiValueHigher inp t ! 1 \<le> InpRSIExitLevel inp"

definition long_trend_exit :: "inputs \<Rightarrow> terminal \<Rightarrow> bool" where
  "long_trend_exit inp t \<longleftrightarrow>
     trendValueHigher inp t ! 1 > trendExitValue inp t
     \<and> trendValueHigher inp t ! 0 < trendExitValue inp t"

definition long_trailing :: "inputs \<Rightarrow> globals \<Rightarrow> terminal \<Rightarrow> position \<Rightarrow> event list" where
  "long_trailing inp g t p =
     (let currentATR = atrValue g t ! 0;
          currentStop = POSITION_SL p;
          newStop = SYMBOL_BID t - InpATRMultiplier inp * currentATR
      in if newStop > currentStop
         then [PositionModify newStop (POSITION_TP p),
               PrintValue ''Long position ATR-based trailing stop updated to: '' newStop]
         else [])"

definition manage_long :: "inputs \<Rightarrow> globals \<Rightarrow> terminal \<Rightarrow> position \<Rightarrow> event list" where
  "manage_long inp g t p =
     (if long_rsi_exit inp t
      then if posDuration t p \<ge> InpMinHoldDuration inp
           then [PositionClose,
                 Print ''Long position closed due to RSI crossing above exit level'']
           else [Print ''Long position RSI exit triggered but minimum holding period not met'']
      else [])
     @ (if long_trend_exit inp t
        then if posDuration t p \<ge> InpMinHoldDuration inp
             then [PositionClose,
                   Print ''Long position closed due to price crossing below Trend EMA'']
             else [Print ''Long position trend exit triggered but minimum holding period not met'']
        else [])
     @ long_trailing inp g t p"

text \<open>Lines 195 to 227: the management of a short position.\<close>

definition short_rsi_exit :: "inputs \<Rightarrow> terminal \<Rightarrow> bool" where
  "short_rsi_exit inp t \<longleftrightarrow>
     rsiValueHigher inp t ! 0 < 100 - InpRSIExitLevel inp
     \<and> rsiValueHigher inp t ! 1 \<ge> 100 - InpRSIExitLevel inp"

definition short_trend_exit :: "inputs \<Rightarrow> terminal \<Rightarrow> bool" where
  "short_trend_exit inp t \<longleftrightarrow>
     trendValueHigher inp t ! 1 < trendExitValue inp t
     \<and> trendValueHigher inp t ! 0 > trendExitValue inp t"

definition short_trailing :: "inputs \<Rightarrow> globals \<Rightarrow> terminal \<Rightarrow> position \<Rightarrow> event list" where
  "short_trailing inp g t p =
     (let currentATR = atrValue g t ! 0;
          currentStop = POSITION_SL p;
          newStop = SYMBOL_ASK t + InpATRMultiplier inp * currentATR
      in if newStop < currentStop
         then [PositionModify newStop (POSITION_TP p),
               PrintValue ''Short position ATR-based trailing stop updated to: '' newStop]
         else [])"

definition manage_short :: "inputs \<Rightarrow> globals \<Rightarrow> terminal \<Rightarrow> position \<Rightarrow> event list" where
  "manage_short inp g t p =
     (if short_rsi_exit inp t
      then if posDuration t p \<ge> InpMinHoldDuration inp
           then [PositionClose,
                 Print ''Short position closed due to RSI crossing below exit level'']
           else [Print ''Short position RSI exit triggered but minimum holding period not met'']
      else [])
     @ (if short_trend_exit inp t
        then if posDuration t p \<ge> InpMinHoldDuration inp
             then [PositionClose,
                   Print ''Short position closed due to price crossing above Trend EMA'']
             else [Print ''Short position trend exit triggered but minimum holding period not met'']
        else [])
     @ short_trailing inp g t p"

text \<open>
  The reads of lines 96 to 102 need one ATR value and three values of each of the four
  hourly arrays; the reads of lines 153 and 154 need three values of each daily array.
  A read outside an array is a critical error of the MQL5 runtime: the program is stopped
  where it stands.
\<close>

definition hourly_ok :: "globals \<Rightarrow> terminal \<Rightarrow> bool" where
  "hourly_ok g t \<longleftrightarrow>
     0 < length (atrValue g t) \<and> 2 < length (trendValue g t) \<and> 2 < length (rsiValue g t)
     \<and> 2 < length (macdMain g t) \<and> 2 < length (macdSignal g t)"

definition daily_ok :: "inputs \<Rightarrow> terminal \<Rightarrow> bool" where
  "daily_ok inp t \<longleftrightarrow>
     2 < length (trendValueHigher inp t) \<and> 2 < length (rsiValueHigher inp t)"

definition OnTick :: "inputs \<Rightarrow> globals \<Rightarrow> terminal \<Rightarrow> outcome" where
  "OnTick inp g t =
     (if \<not> hourly_ok g t
      then \<lparr>fault = Some ArrayOutOfRange, trace = [], after = g\<rparr>
      else if iTime t = prevBarTime g
      then \<lparr>fault = None, trace = [], after = g\<rparr>
      else
        let g' = g\<lparr>prevBarTime := iTime t\<rparr>;
            entries = long_entry inp g t @ short_entry inp g t
        in case PositionSelect t of
             None \<Rightarrow> \<lparr>fault = None, trace = entries, after = g'\<rparr>
           | Some p \<Rightarrow>
               if \<not> daily_ok inp t
               then \<lparr>fault = Some ArrayOutOfRange, trace = entries, after = g'\<rparr>
               else \<lparr>fault = None,
                     trace = entries @ (case POSITION_TYPE p of
                                          POSITION_TYPE_BUY \<Rightarrow> manage_long inp g t p
                                        | POSITION_TYPE_SELL \<Rightarrow> manage_short inp g t p),
                     after = g'\<rparr>)"

text \<open>
  A run of the program over the ticks the terminal delivers: the events of all ticks in
  order. After a critical error the program is stopped and sees no further tick.
\<close>

fun run :: "inputs \<Rightarrow> globals \<Rightarrow> terminal list \<Rightarrow> event list" where
  "run inp g [] = []"
| "run inp g (t # ts) =
     (let r = OnTick inp g t
      in trace r @ (case fault r of None \<Rightarrow> run inp (after r) ts | Some e \<Rightarrow> []))"

text \<open>The kinds of request among the events.\<close>

fun is_open_long :: "event \<Rightarrow> bool" where
  "is_open_long (Buy v pr sl tp) = True"
| "is_open_long e = False"

fun is_open_short :: "event \<Rightarrow> bool" where
  "is_open_short (Sell v pr sl tp) = True"
| "is_open_short e = False"

fun is_close :: "event \<Rightarrow> bool" where
  "is_close PositionClose = True"
| "is_close e = False"

fun is_modify :: "event \<Rightarrow> bool" where
  "is_modify (PositionModify sl tp) = True"
| "is_modify e = False"

definition is_entry :: "event \<Rightarrow> bool" where
  "is_entry e \<longleftrightarrow> is_open_long e \<or> is_open_short e"

subsection \<open>The value of the exit average and the effect of a modification\<close>

text \<open>
  The program reads every indicator value it uses through \<open>CopyBuffer\<close> on the handle
  of the indicator. Read the same way, the latest value of the daily average with the
  period \<open>InpTrendExitPeriod\<close> is the first value copied from the handle that
  line 176 obtains.
\<close>

definition exit_ema_latest :: "inputs \<Rightarrow> terminal \<Rightarrow> real" where
  "exit_ema_latest inp t = CopyBuffer t (iMA t PERIOD_D1 (InpTrendExitPeriod inp)) 0 0 1 ! 0"

text \<open>
  Modelled from the spec: the order gateway behind \<open>trade.PositionModify\<close>, which is not
  part of the program. \<open>modifyStop(instrument, newStop, takeProfit)\<close> either succeeds, and
  the position then carries the new stop-loss and take-profit, or is rejected, and the
  position stays as it was before the request. No other request changes the stop-loss
  of the position that is followed here.
\<close>

fun apply_modify :: "event \<Rightarrow> position \<Rightarrow> position" where
  "apply_modify (PositionModify sl tp) p = p\<lparr>POSITION_SL := sl, POSITION_TP := tp\<rparr>"
| "apply_modify e p = p"

text \<open>
  The stop-loss of one open position over a sequence of ticks: before each tick the
  terminal shows the program the position as it stands, and after the tick the gateway
  accepts or rejects the modifications the program asked for. The list holds the
  stop-loss before the first tick and after every tick.
\<close>

fun trail :: "inputs \<Rightarrow> globals \<Rightarrow> position \<Rightarrow> (terminal \<times> bool) list \<Rightarrow> real list" where
  "trail inp g p [] = [POSITION_SL p]"
| "trail inp g p ((t, accepted) # ts) =
     (let r = OnTick inp g (t\<lparr>PositionSelect := Some p\<rparr>);
          p' = (if accepted then fold apply_modify (trace r) p else p)
      in POSITION_SL p #
         (case fault r of None \<Rightarrow> trail inp (after r) p' ts | Some e \<Rightarrow> [POSITION_SL p']))"

subsection \<open>Concrete ticks\<close>

text \<open>
  A terminal in which the hourly indicators have the handles 10 to 13, the daily trend
  average and the daily RSI the handles 14 and 15, and the daily exit average the
  handle 16; the six lists are what the terminal holds for them, newest value first.
\<close>

definition demo_CopyBuffer ::
  "real list \<Rightarrow> real list \<Rightarrow> real list \<Rightarrow> real list \<Rightarrow> real list \<Rightarrow> real list
     \<Rightarrow> int \<Rightarrow> nat \<Rightarrow> nat \<Rightarrow> nat \<Rightarrow> real list" where
  "demo_CopyBuffer trendH1 rsiH1 atrH1 trendD1 rsiD1 exitD1 h b st c =
     take c (drop st
       (if h = 10 then trendH1
        else if h = 11 then rsiH1
        else if h = 12 then (if b = 0 then [0.0012, 0.0010, 0.0008] else [0.0011, 0.0011, 0.0010])
        else if h = 13 then atrH1
        else if h = 14 then trendD1
        else if h = 15 then rsiD1
        else if h = 16 then exitD1
        else []))"

definition demo_terminal :: terminal where
  "demo_terminal =
     \<lparr>SYMBOL_BID = 1.2, SYMBOL_ASK = 1.2002, SYMBOL_POINT = 0.0001,
      iMA = (\<lambda>tf period. case tf of PERIOD_H1 \<Rightarrow> 10
                                   | PERIOD_D1 \<Rightarrow> if period = 100 then 16 else 14),
      iRSI = (\<lambda>tf period. case tf of PERIOD_H1 \<Rightarrow> 11 | PERIOD_D1 \<Rightarrow> 15),
      iMACD = (\<lambda>tf fast slow signal. 12),
      iATR = (\<lambda>tf period. 13),
      CopyBuffer = demo_CopyBuffer [1.10, 1.00, 0.95] [41, 39, 38] [0.001]
                     [1.19, 1.18, 1.17] [51, 49, 48] [1.15],
      iTime = 1700002800,
      PositionSelect = None,
      TimeCurrent = 1700002805\<rparr>"

definition demo_globals :: globals where
  "demo_globals =
     \<lparr>trendHandle = 10, rsiHandle = 11, macdHandle = 12, atrHandle = 13, prevBarTime = 0\<rparr>"

definition demo_long :: position where
  "demo_long =
     \<lparr>POSITION_TYPE = POSITION_TYPE_BUY, POSITION_SL = 1.195, POSITION_TP = 1.2102,
      POSITION_TIME = 1699990000\<rparr>"

definition demo_short :: position where
  "demo_short =
     \<lparr>POSITION_TYPE = POSITION_TYPE_SELL, POSITION_SL = 1.205, POSITION_TP = 1.1898,
      POSITION_TIME = 1699990000\<rparr>"

text \<open>The falling market that mirrors \<open>demo_terminal\<close>, with the ask at 1.2000.\<close>

definition falling_terminal :: terminal where
  "falling_terminal =
     demo_terminal\<lparr>SYMBOL_BID := 1.1998, SYMBOL_ASK := 1.2,
       CopyBuffer := demo_CopyBuffer [0.95, 1.00, 1.10] [59, 61, 62] [0.001]
                       [1.19, 1.18, 1.17] [51, 49, 48] [1.15]\<rparr>"

text \<open>
  A long position held for more than three hours, no hourly entry signal, the daily
  RSI rising from 49 to 51.
\<close>

definition held_long_terminal :: terminal where
  "held_long_terminal =
     demo_terminal\<lparr>CopyBuffer := demo_CopyBuffer [1.10, 1.00, 0.95] [45, 44, 43] [0.001]
                       [1.19, 1.18, 1.17] [51, 49, 48] [1.15],
       PositionSelect := Some demo_long\<rparr>"

text \<open>
  An instrument quoted near 16, where the daily trend average passes the number of the
  handle while the exit average stands at 16.4.
\<close>

definition silver_long :: position where
  "silver_long =
     \<lparr>POSITION_TYPE = POSITION_TYPE_BUY, POSITION_SL = 15.9, POSITION_TP = 17,
      POSITION_TIME = 1699990000\<rparr>"

definition silver_terminal :: terminal where
  "silver_terminal =
     demo_terminal\<lparr>SYMBOL_BID := 15.95, SYMBOL_ASK := 15.97, SYMBOL_POINT := 0.001,
       CopyBuffer := demo_CopyBuffer [15.96, 15.98, 16.0] [45, 44, 43] [0.05]
                       [15.9, 16.1, 16.2] [51, 49, 48] [16.4],
       PositionSelect := Some silver_long\<rparr>"

text \<open>The same instrument with a short position, the daily trend average rising past 16.\<close>

definition silver_short :: position where
  "silver_short =
     \<lparr>POSITION_TYPE = POSITION_TYPE_SELL, POSITION_SL = 16.5, POSITION_TP = 15,
      POSITION_TIME = 1699990000\<rparr>"

definition silver_short_terminal :: terminal where
  "silver_short_terminal =
     silver_terminal\<lparr>CopyBuffer := demo_CopyBuffer [15.96, 15.98, 16.0] [45, 44, 43] [0.05]
                         [16.1, 15.9, 15.8] [55, 54, 53] [15.5],
       PositionSelect := Some silver_short\<rparr>"

text \<open>
  The daily trend average falls from 1.16 to 1.14 through the exit average at 1.15.
\<close>

definition reversal_terminal :: terminal where
  "reversal_terminal =
     demo_terminal\<lparr>CopyBuffer := demo_CopyBuffer [1.10, 1.00, 0.95] [45, 44, 43] [0.001]
                       [1.14, 1.16, 1.17] [49, 48, 47] [1.15],
       PositionSelect := Some demo_long\<rparr>"

text \<open>
  A short position held for more than three hours, no hourly entry signal, the daily
  RSI falling from 51 to 49.
\<close>

definition held_short_terminal :: terminal where
  "held_short_terminal =
     demo_terminal\<lparr>CopyBuffer := demo_CopyBuffer [1.10, 1.00, 0.95] [45, 44, 43] [0.001]
                       [1.19, 1.18, 1.17] [49, 51, 52] [1.15],
       PositionSelect := Some demo_short\<rparr>"

text \<open>A long position opened thirty minutes before the tick.\<close>

definition fresh_long :: position where
  "fresh_long = demo_long\<lparr>POSITION_TIME := 1700001000\<rparr>"

definition fresh_long_terminal :: terminal where
  "fresh_long_terminal = held_long_terminal\<lparr>PositionSelect := Some fresh_long\<rparr>"

text \<open>
  The hourly entry signal of \<open>demo_terminal\<close> with a long position open, while the two
  daily series that \<open>OnTick\<close> asks for come back empty; and a tick on which the ATR
  series comes back empty.
\<close>

definition no_daily_terminal :: terminal where
  "no_daily_terminal =
     demo_terminal\<lparr>CopyBuffer := demo_CopyBuffer [1.10, 1.00, 0.95] [41, 39, 38] [0.001]
                       [] [] [1.15],
       PositionSelect := Some demo_long\<rparr>"

definition no_atr_terminal :: terminal where
  "no_atr_terminal =
     demo_terminal\<lparr>CopyBuffer := demo_CopyBuffer [1.10, 1.00, 0.95] [41, 39, 38] []
                       [1.19, 1.18, 1.17] [51, 49, 48] [1.15],
       PositionSelect := Some demo_long\<rparr>"

section \<open>Properties\<close>

subsection \<open>Evaluation of the concrete ticks\<close>

lemmas demo_defs =
  demo_terminal_def demo_globals_def demo_long_def demo_short_def demo_CopyBuffer_def
  falling_terminal_def held_long_terminal_def silver_terminal_def reversal_terminal_def
  held_short_terminal_def fresh_long_def fresh_long_terminal_def no_daily_terminal_def
  no_atr_terminal_def silver_long_def silver_short_def silver_short_terminal_def
  default_inputs_def hourly_ok_def daily_ok_def trendValue_def rsiValue_def macdMain_def
  macdSignal_def atrValue_def trendValueHigher_def rsiValueHigher_def trendExitValue_def
  posDuration_def to_int32_def signed_divide_int_def

lemmas tick_defs =
  OnTick_def Let_def long_entry_def short_entry_def long_signal_def short_signal_def
  manage_long_def manage_short_def long_rsi_exit_def short_rsi_exit_def long_trend_exit_def
  short_trend_exit_def long_trailing_def short_trailing_def

lemma OnInit_demo: "OnInit default_inputs demo_terminal = (INIT_SUCCEEDED, demo_globals)"
  by (simp add: OnInit_def demo_defs INVALID_HANDLE_def Let_def)

text \<open>
  For the times the terminal can deliver (the position was opened at or before the
  current time, less than \<open>2 ^ 31\<close> minutes ago) \<open>posDuration\<close> is the number of whole
  minutes since the position was opened.
\<close>

lemma posDuration_minutes:
  assumes "POSITION_TIME p \<le> TimeCurrent t"
    and "TimeCurrent t - POSITION_TIME p < 60 * 2 ^ 31"
  shows "posDuration t p = (TimeCurrent t - POSITION_TIME p) div 60"
proof -
  define d where "d = TimeCurrent t - POSITION_TIME p"
  have d: "0 \<le> d" "d < 60 * 2 ^ 31" using assms by (simp_all add: d_def)
  then have "0 \<le> d div 60" "d div 60 < 2 ^ 31" by simp_all
  moreover have "d sdiv 60 = d div 60"
    using d(1) by (simp add: signed_divide_int_def sgn_if)
  ultimately show ?thesis
    by (simp add: posDuration_def to_int32_def d_def [symmetric])
qed

subsection \<open>One tick\<close>

lemma OnTick_same_bar:
  "iTime t = prevBarTime g \<Longrightarrow> trace (OnTick inp g t) = [] \<and> after (OnTick inp g t) = g"
  by (simp add: OnTick_def)

lemma OnTick_new_bar_after:
  "hourly_ok g t \<Longrightarrow> iTime t \<noteq> prevBarTime g \<Longrightarrow>
   prevBarTime (after (OnTick inp g t)) = iTime t"
  by (simp add: OnTick_def Let_def split: option.splits)

lemma OnTick_managed:
  assumes "hourly_ok g t" "iTime t \<noteq> prevBarTime g" "PositionSelect t = Some p" "daily_ok inp t"
  shows "trace (OnTick inp g t) =
           long_entry inp g t @ short_entry inp g t
           @ (case POSITION_TYPE p of POSITION_TYPE_BUY \<Rightarrow> manage_long inp g t p
                                    | POSITION_TYPE_SELL \<Rightarrow> manage_short inp g t p)"
    and "fault (OnTick inp g t) = None"
    and "after (OnTick inp g t) = g\<lparr>prevBarTime := iTime t\<rparr>"
  using assms by (simp_all add: OnTick_def Let_def)

lemma manage_long_no_entry:
  "filter is_open_long (manage_long inp g t p) = []"
  "filter is_open_short (manage_long inp g t p) = []"
  by (simp_all add: manage_long_def long_trailing_def Let_def)

lemma manage_short_no_entry:
  "filter is_open_long (manage_short inp g t p) = []"
  "filter is_open_short (manage_short inp g t p) = []"
  by (simp_all add: manage_short_def short_trailing_def Let_def)

lemma entries_no_close:
  "filter is_close (long_entry inp g t) = []" "filter is_close (short_entry inp g t) = []"
  by (simp_all add: long_entry_def short_entry_def Let_def)

lemma entries_no_modify:
  "filter is_modify (long_entry inp g t) = []" "filter is_modify (short_entry inp g t) = []"
  by (simp_all add: long_entry_def short_entry_def Let_def)

lemma trailing_no_close:
  "filter is_close (long_trailing inp g t p) = []"
  "filter is_close (short_trailing inp g t p) = []"
  by (simp_all add: long_trailing_def short_trailing_def Let_def)

lemma OnTick_new_bar_open_long:
  "hourly_ok g t \<Longrightarrow> iTime t \<noteq> prevBarTime g \<Longrightarrow>
   filter is_open_long (trace (OnTick inp g t)) = filter is_open_long (long_entry inp g t)"
  by (simp add: OnTick_def Let_def short_entry_def manage_long_no_entry manage_short_no_entry
      split: option.splits ENUM_POSITION_TYPE.splits)

lemma OnTick_new_bar_open_short:
  "hourly_ok g t \<Longrightarrow> iTime t \<noteq> prevBarTime g \<Longrightarrow>
   filter is_open_short (trace (OnTick inp g t)) = filter is_open_short (short_entry inp g t)"
  by (simp add: OnTick_def Let_def long_entry_def manage_long_no_entry manage_short_no_entry
      split: option.splits ENUM_POSITION_TYPE.splits)

subsection \<open>Several ticks of one bar\<close>

lemma run_same_bar:
  "\<forall>t\<in>set ts. iTime t = prevBarTime g \<Longrightarrow> run inp g ts = []"
proof (induction ts)
  case Nil
  show ?case by simp
next
  case (Cons t ts)
  then have "trace (OnTick inp g t) = []" "after (OnTick inp g t) = g"
    by (simp_all add: OnTick_same_bar)
  with Cons show ?case by (simp add: Let_def split: option.splits)
qed

lemma run_new_bar:
  assumes "hourly_ok g t" "iTime t \<noteq> prevBarTime g" "\<forall>t'\<in>set ts. iTime t' = iTime t"
  shows "run inp g (t # ts) = trace (OnTick inp g t)"
proof -
  have "run inp (after (OnTick inp g t)) ts = []"
    using assms by (intro run_same_bar) (simp add: OnTick_new_bar_after)
  then show ?thesis by (simp add: Let_def split: option.splits)
qed

subsection \<open>Entries\<close>

text \<open>
  Claim C1. On a tick that starts a new hourly bar, with the hourly indicator values
  delivered, a rising trend average together with an RSI that crosses the lower level
  upwards gives exactly one \<open>Buy\<close> request over all the ticks of that bar, with the
  stop-loss at bid minus \<open>InpStopLoss\<close> points and the take-profit at ask plus
  \<open>InpTakeProfit\<close> points; the falling trend with the RSI crossing the upper level
  downwards gives exactly one \<open>Sell\<close> request, with the stop-loss at ask plus
  \<open>InpStopLoss\<close> points. At bid 1.2000, 50 points of 0.0001 the long stop is 1.1950, and
  at ask 1.2000 the short stop is 1.2050.
\<close>

theorem new_bar_entry_once:
  assumes "hourly_ok g t" and "iTime t \<noteq> prevBarTime g"
    and "\<forall>t'\<in>set ts. iTime t' = iTime t"
  shows "(trendValue g t ! 0 > trendValue g t ! 1
          \<and> rsiValue g t ! 0 > InpRSILowerLevel inp \<and> rsiValue g t ! 1 \<le> InpRSILowerLevel inp
          \<longrightarrow> filter is_open_long (run inp g (t # ts)) =
                [Buy (InpLotSize inp) (SYMBOL_ASK t)
                   (SYMBOL_BID t - real_of_int (InpStopLoss inp) * SYMBOL_POINT t)
                   (SYMBOL_ASK t + real_of_int (InpTakeProfit inp) * SYMBOL_POINT t)])
       \<and> (trendValue g t ! 0 < trendValue g t ! 1
          \<and> rsiValue g t ! 0 < InpRSIUpperLevel inp \<and> rsiValue g t ! 1 \<ge> InpRSIUpperLevel inp
          \<longrightarrow> filter is_open_short (run inp g (t # ts)) =
                [Sell (InpLotSize inp) (SYMBOL_BID t)
                   (SYMBOL_ASK t + real_of_int (InpStopLoss inp) * SYMBOL_POINT t)
                   (SYMBOL_BID t - real_of_int (InpTakeProfit inp) * SYMBOL_POINT t)])"
  unfolding run_new_bar [OF assms]
  using assms(1,2)
  by (simp add: OnTick_new_bar_open_long OnTick_new_bar_open_short long_entry_def
      short_entry_def long_signal_def short_signal_def Let_def)

theorem new_bar_entry_once_witness:
  "hourly_ok demo_globals demo_terminal
   \<and> iTime demo_terminal \<noteq> prevBarTime demo_globals
   \<and> trendValue demo_globals demo_terminal = [1.10, 1.00, 0.95]
   \<and> rsiValue demo_globals demo_terminal = [41, 39, 38]
   \<and> InpRSILowerLevel default_inputs = 40
   \<and> SYMBOL_BID demo_terminal = 1.2 \<and> SYMBOL_POINT demo_terminal = 0.0001
   \<and> InpStopLoss default_inputs = 50
   \<and> filter is_open_long
       (run default_inputs demo_globals
          [demo_terminal, demo_terminal\<lparr>SYMBOL_BID := 1.2001\<rparr>, demo_terminal])
     = [Buy 0.1 1.2002 1.195 1.2102]
   \<and> hourly_ok demo_globals falling_terminal
   \<and> iTime falling_terminal \<noteq> prevBarTime demo_globals
   \<and> trendValue demo_globals falling_terminal = [0.95, 1.00, 1.10]
   \<and> rsiValue demo_globals falling_terminal = [59, 61, 62]
   \<and> InpRSIUpperLevel default_inputs = 60
   \<and> SYMBOL_ASK falling_terminal = 1.2
   \<and> filter is_open_short
       (run default_inputs demo_globals [falling_terminal, falling_terminal])
     = [Sell 0.1 1.1998 1.205 1.1898]"
proof -
  let ?ts = "[demo_terminal\<lparr>SYMBOL_BID := 1.2001\<rparr>, demo_terminal]"
  have h1: "hourly_ok demo_globals demo_terminal" by (simp add: demo_defs)
  have h2: "iTime demo_terminal \<noteq> prevBarTime demo_globals" by (simp add: demo_defs)
  have h3: "\<forall>t'\<in>set ?ts. iTime t' = iTime demo_terminal" by simp
  have k1: "hourly_ok demo_globals falling_terminal" by (simp add: demo_defs)
  have k2: "iTime falling_terminal \<noteq> prevBarTime demo_globals" by (simp add: demo_defs)
  have k3: "\<forall>t'\<in>set [falling_terminal]. iTime t' = iTime falling_terminal" by simp
  show ?thesis
    using h1 h2 k1 k2 new_bar_entry_once [OF h1 h2 h3, of default_inputs]
      new_bar_entry_once [OF k1 k2 k3, of default_inputs]
    by (simp add: demo_defs)
qed

text \<open>
  Claim C6. On a tick whose hourly bar has the open time of the last processed bar no
  \<open>Buy\<close> and no \<open>Sell\<close> request is made and the globals stay as they are; any number of
  such ticks in a row makes no entry request.
\<close>

theorem same_bar_no_entry:
  "(iTime t = prevBarTime g \<longrightarrow>
      filter is_entry (trace (OnTick inp g t)) = [] \<and> after (OnTick inp g t) = g)
   \<and> ((\<forall>t'\<in>set ts. iTime t' = prevBarTime g) \<longrightarrow> filter is_entry (run inp g ts) = [])"
  using OnTick_same_bar [of t g inp] run_same_bar [of ts g inp] by simp

theorem same_bar_no_entry_witness:
  "iTime demo_terminal = prevBarTime (demo_globals\<lparr>prevBarTime := 1700002800\<rparr>)
   \<and> long_signal default_inputs (demo_globals\<lparr>prevBarTime := 1700002800\<rparr>) demo_terminal
   \<and> filter is_entry
       (trace (OnTick default_inputs (demo_globals\<lparr>prevBarTime := 1700002800\<rparr>) demo_terminal))
     = []
   \<and> filter is_entry
       (run default_inputs (demo_globals\<lparr>prevBarTime := 1700002800\<rparr>)
          [demo_terminal, demo_terminal]) = []"
proof -
  let ?g = "demo_globals\<lparr>prevBarTime := 1700002800\<rparr>"
  have h1: "iTime demo_terminal = prevBarTime ?g" by (simp add: demo_defs)
  have h2: "\<forall>t'\<in>set [demo_terminal, demo_terminal]. iTime t' = prevBarTime ?g"
    by (simp add: demo_defs)
  have h3: "long_signal default_inputs ?g demo_terminal"
    by (simp add: long_signal_def demo_defs)
  show ?thesis
    using h1 h2 h3
      same_bar_no_entry [of demo_terminal ?g default_inputs "[demo_terminal, demo_terminal]"]
    by simp
qed

subsection \<open>Exits\<close>

text \<open>
  Claim C2. On a tick that starts a new hourly bar, with the hourly and daily indicator
  values delivered, a position open and held for at least \<open>InpMinHoldDuration\<close> minutes:
  when the position is long and the daily RSI crosses the exit level upwards, a close
  request is made, and it is the only close request of the tick whenever the comparison
  of the trend exit in the same tick does not fire, that is, unless the previous daily
  trend value is above \<open>trendExitValue\<close> and the current one below it; when the position
  is short and the daily RSI crosses 100 minus the exit level downwards, the same holds
  with the comparison mirrored. With the exit level 50 and the daily RSI going from 49
  to 51, the long position is closed exactly once on such a tick when that comparison
  does not fire. How many close requests there are when it fires as well is not part of
  this statement.
\<close>

theorem rsi_exit_closes:
  assumes "hourly_ok g t" and "iTime t \<noteq> prevBarTime g"
    and "PositionSelect t = Some p" and "daily_ok inp t"
    and "posDuration t p \<ge> InpMinHoldDuration inp"
  shows "(POSITION_TYPE p = POSITION_TYPE_BUY
          \<and> rsiValueHigher inp t ! 0 > InpRSIExitLevel inp
          \<and> rsiValueHigher inp t ! 1 \<le> InpRSIExitLevel inp
          \<longrightarrow> PositionClose \<in> set (trace (OnTick inp g t))
              \<and> (\<not> (trendValueHigher inp t ! 1 > trendExitValue inp t
                     \<and> trendValueHigher inp t ! 0 < trendExitValue inp t)
                  \<longrightarrow> filter is_close (trace (OnTick inp g t)) = [PositionClose]))
       \<and> (POSITION_TYPE p = POSITION_TYPE_SELL
          \<and> rsiValueHigher inp t ! 0 < 100 - InpRSIExitLevel inp
          \<and> rsiValueHigher inp t ! 1 \<ge> 100 - InpRSIExitLevel inp
          \<longrightarrow> PositionClose \<in> set (trace (OnTick inp g t))
              \<and> (\<not> (trendValueHigher inp t ! 1 < trendExitValue inp t
                     \<and> trendValueHigher inp t ! 0 > trendExitValue inp t)
                  \<longrightarrow> filter is_close (trace (OnTick inp g t)) = [PositionClose]))"
  using assms(5)
  by (simp add: OnTick_managed [OF assms(1-4)] entries_no_close trailing_no_close
      manage_long_def manage_short_def long_rsi_exit_def short_rsi_exit_def
      long_trend_exit_def short_trend_exit_def)

theorem rsi_exit_closes_witness:
  "hourly_ok demo_globals held_long_terminal
   \<and> iTime held_long_terminal \<noteq> prevBarTime demo_globals
   \<and> PositionSelect held_long_terminal = Some demo_long
   \<and> POSITION_TYPE demo_long = POSITION_TYPE_BUY
   \<and> daily_ok default_inputs held_long_terminal
   \<and> posDuration held_long_terminal demo_long \<ge> InpMinHoldDuration default_inputs
   \<and> InpRSIExitLevel default_inputs = 50
   \<and> rsiValueHigher default_inputs held_long_terminal ! 0 = 51
   \<and> rsiValueHigher default_inputs held_long_terminal ! 1 = 49
   \<and> \<not> (trendValueHigher default_inputs held_long_terminal ! 1
             > trendExitValue default_inputs held_long_terminal
          \<and> trendValueHigher default_inputs held_long_terminal ! 0
             < trendExitValue default_inputs held_long_terminal)
   \<and> PositionClose \<in> set (trace (OnTick default_inputs demo_globals held_long_terminal))
   \<and> filter is_close (trace (OnTick default_inputs demo_globals held_long_terminal))
       = [PositionClose]
   \<and> hourly_ok demo_globals held_short_terminal
   \<and> iTime held_short_terminal \<noteq> prevBarTime demo_globals
   \<and> PositionSelect held_short_terminal = Some demo_short
   \<and> POSITION_TYPE demo_short = POSITION_TYPE_SELL
   \<and> daily_ok default_inputs held_short_terminal
   \<and> posDuration held_short_terminal demo_short \<ge> InpMinHoldDuration default_inputs
   \<and> rsiValueHigher default_inputs held_short_terminal ! 0 = 49
   \<and> rsiValueHigher default_inputs held_short_terminal ! 1 = 51
   \<and> \<not> (trendValueHigher default_inputs held_short_terminal ! 1
             < trendExitValue default_inputs held_short_terminal
          \<and> trendValueHigher default_inputs held_short_terminal ! 0
             > trendExitValue default_inputs held_short_terminal)
   \<and> PositionClose \<in> set (trace (OnTick default_inputs demo_globals held_short_terminal))
   \<and> filter is_close (trace (OnTick default_inputs demo_globals held_short_terminal))
       = [PositionClose]"
proof -
  have k1: "hourly_ok demo_globals held_short_terminal" by (simp add: demo_defs)
  have k2: "iTime held_short_terminal \<noteq> prevBarTime demo_globals" by (simp add: demo_defs)
  have k3: "PositionSelect held_short_terminal = Some demo_short" by (simp add: demo_defs)
  have k4: "daily_ok default_inputs held_short_terminal" by (simp add: demo_defs)
  have k5: "posDuration held_short_terminal demo_short \<ge> InpMinHoldDuration default_inputs"
    by (simp add: demo_defs)
  have k6: "\<not> (trendValueHigher default_inputs held_short_terminal ! 1
                  < trendExitValue default_inputs held_short_terminal
               \<and> trendValueHigher default_inputs held_short_terminal ! 0
                  > trendExitValue default_inputs held_short_terminal)"
    by (simp add: demo_defs)
  have h1: "hourly_ok demo_globals held_long_terminal" by (simp add: demo_defs)
  have h2: "iTime held_long_terminal \<noteq> prevBarTime demo_globals" by (simp add: demo_defs)
  have h3: "PositionSelect held_long_terminal = Some demo_long" by (simp add: demo_defs)
  have h4: "daily_ok default_inputs held_long_terminal" by (simp add: demo_defs)
  have h5: "posDuration held_long_terminal demo_long \<ge> InpMinHoldDuration default_inputs"
    by (simp add: demo_defs)
  have h6: "\<not> (trendValueHigher default_inputs held_long_terminal ! 1
                  > trendExitValue default_inputs held_long_terminal
               \<and> trendValueHigher default_inputs held_long_terminal ! 0
                  < trendExitValue default_inputs held_long_terminal)"
    by (simp add: demo_defs)
  show ?thesis
    using h1 h2 h3 h4 h5 h6 k1 k2 k3 k4 k5 k6 rsi_exit_closes [OF h1 h2 h3 h4 h5]
      rsi_exit_closes [OF k1 k2 k3 k4 k5]
    by (simp add: demo_defs)
qed

text \<open>
  The claim as first stated fails. On a tick of the bar already processed the long
  position, held long enough and with the daily RSI crossing from 49 to 51, gets no close
  request. And on a new bar a second close request follows the first when the comparison
  of the trend exit fires in the same tick, here because the daily trend values pass the
  number of the handle (claim C3).
\<close>

theorem rsi_exit_counterexample:
  "PositionSelect held_long_terminal = Some demo_long
   \<and> POSITION_TYPE demo_long = POSITION_TYPE_BUY
   \<and> posDuration held_long_terminal demo_long \<ge> InpMinHoldDuration default_inputs
   \<and> rsiValueHigher default_inputs held_long_terminal ! 0 > InpRSIExitLevel default_inputs
   \<and> rsiValueHigher default_inputs held_long_terminal ! 1 \<le> InpRSIExitLevel default_inputs
   \<and> filter is_close
        (trace (OnTick default_inputs (demo_globals\<lparr>prevBarTime := 1700002800\<rparr>)
                  held_long_terminal)) = []
   \<and> PositionSelect silver_terminal = Some silver_long
   \<and> POSITION_TYPE silver_long = POSITION_TYPE_BUY
   \<and> posDuration silver_terminal silver_long \<ge> InpMinHoldDuration default_inputs
   \<and> rsiValueHigher default_inputs silver_terminal ! 0 > InpRSIExitLevel default_inputs
   \<and> rsiValueHigher default_inputs silver_terminal ! 1 \<le> InpRSIExitLevel default_inputs
   \<and> filter is_close (trace (OnTick default_inputs demo_globals silver_terminal))
       = [PositionClose, PositionClose]"
  by (simp add: demo_defs tick_defs)

text \<open>
  Claim C3. The trend exit is meant to compare the two latest daily trend values with
  the latest value of the daily average of period \<open>InpTrendExitPeriod\<close>. The program
  compares them with \<open>trendExitValue\<close>, the handle that \<open>iMA\<close> returns. On the tick
  below the daily trend average falls from 1.16 to 1.14 through the exit average at
  1.15 and the long position has been held long enough, yet no close request is made:
  the values are compared with the handle, 16. On the second tick the daily trend
  average, 16.1 and then 15.9, stays below the exit average at 16.4, and the program
  closes the position for a trend reversal, because the values pass the handle.
\<close>

theorem trend_exit_reads_handle:
  "PositionSelect reversal_terminal = Some demo_long
   \<and> POSITION_TYPE demo_long = POSITION_TYPE_BUY
   \<and> posDuration reversal_terminal demo_long \<ge> InpMinHoldDuration default_inputs
   \<and> trendValueHigher default_inputs reversal_terminal ! 1
        > exit_ema_latest default_inputs reversal_terminal
   \<and> trendValueHigher default_inputs reversal_terminal ! 0
        < exit_ema_latest default_inputs reversal_terminal
   \<and> trendExitValue default_inputs reversal_terminal = 16
   \<and> iTime reversal_terminal \<noteq> prevBarTime demo_globals
   \<and> fault (OnTick default_inputs demo_globals reversal_terminal) = None
   \<and> filter is_close (trace (OnTick default_inputs demo_globals reversal_terminal)) = []
   \<and> PositionSelect silver_terminal = Some silver_long
   \<and> \<not> trendValueHigher default_inputs silver_terminal ! 1
          > exit_ema_latest default_inputs silver_terminal
   \<and> Print ''Long position closed due to price crossing below Trend EMA''
       \<in> set (trace (OnTick default_inputs demo_globals silver_terminal))"
  by (simp add: demo_defs tick_defs exit_ema_latest_def)

subsection \<open>The trailing stop\<close>

lemma entries_fold_modify:
  "fold apply_modify (long_entry inp g t) p = p" "fold apply_modify (short_entry inp g t) p = p"
  by (simp_all add: long_entry_def short_entry_def Let_def)

lemma manage_long_settle:
  "POSITION_TYPE (fold apply_modify (manage_long inp g t p) p) = POSITION_TYPE p
   \<and> POSITION_SL p \<le> POSITION_SL (fold apply_modify (manage_long inp g t p) p)"
  by (simp add: manage_long_def long_trailing_def Let_def)

lemma manage_short_settle:
  "POSITION_TYPE (fold apply_modify (manage_short inp g t p) p) = POSITION_TYPE p
   \<and> POSITION_SL (fold apply_modify (manage_short inp g t p) p) \<le> POSITION_SL p"
  by (simp add: manage_short_def short_trailing_def Let_def)

lemma OnTick_settle:
  fixes inp g t p
  defines "r \<equiv> OnTick inp g (t\<lparr>PositionSelect := Some p\<rparr>)"
  shows "POSITION_TYPE (fold apply_modify (trace r) p) = POSITION_TYPE p"
    and "POSITION_TYPE p = POSITION_TYPE_BUY
         \<Longrightarrow> POSITION_SL p \<le> POSITION_SL (fold apply_modify (trace r) p)"
    and "POSITION_TYPE p = POSITION_TYPE_SELL
         \<Longrightarrow> POSITION_SL (fold apply_modify (trace r) p) \<le> POSITION_SL p"
  using manage_long_settle [where inp=inp and g=g and t="t\<lparr>PositionSelect := Some p\<rparr>" and p=p]
    manage_short_settle [where inp=inp and g=g and t="t\<lparr>PositionSelect := Some p\<rparr>" and p=p]
  by (simp_all add: r_def OnTick_def Let_def entries_fold_modify
      split: ENUM_POSITION_TYPE.splits)

lemma trail_long:
  "POSITION_TYPE p = POSITION_TYPE_BUY \<Longrightarrow>
   sorted_wrt (\<le>) (trail inp g p ts) \<and> (\<forall>x\<in>set (trail inp g p ts). POSITION_SL p \<le> x)"
proof (induction ts arbitrary: g p)
  case Nil
  show ?case by simp
next
  case (Cons a ts)
  obtain t accepted where a: "a = (t, accepted)" by (cases a)
  define r where "r = OnTick inp g (t\<lparr>PositionSelect := Some p\<rparr>)"
  define p' where "p' = (if accepted then fold apply_modify (trace r) p else p)"
  have p': "POSITION_TYPE p' = POSITION_TYPE_BUY" "POSITION_SL p \<le> POSITION_SL p'"
    using Cons.prems OnTick_settle(1,2) [where inp=inp and g=g and t=t and p=p]
    by (simp_all add: p'_def r_def)
  have IH: "sorted_wrt (\<le>) (trail inp (after r) p' ts)
            \<and> (\<forall>x\<in>set (trail inp (after r) p' ts). POSITION_SL p' \<le> x)"
    using Cons.IH p'(1) by blast
  have eq: "trail inp g p (a # ts) =
              POSITION_SL p # (case fault r of None \<Rightarrow> trail inp (after r) p' ts
                                             | Some e \<Rightarrow> [POSITION_SL p'])"
    unfolding a r_def p'_def by (simp add: Let_def)
  show ?case unfolding eq using IH p'(2) by (auto split: option.splits)
qed

lemma trail_short:
  "POSITION_TYPE p = POSITION_TYPE_SELL \<Longrightarrow>
   sorted_wrt (\<ge>) (trail inp g p ts) \<and> (\<forall>x\<in>set (trail inp g p ts). x \<le> POSITION_SL p)"
proof (induction ts arbitrary: g p)
  case Nil
  show ?case by simp
next
  case (Cons a ts)
  obtain t accepted where a: "a = (t, accepted)" by (cases a)
  define r where "r = OnTick inp g (t\<lparr>PositionSelect := Some p\<rparr>)"
  define p' where "p' = (if accepted then fold apply_modify (trace r) p else p)"
  have p': "POSITION_TYPE p' = POSITION_TYPE_SELL" "POSITION_SL p' \<le> POSITION_SL p"
    using Cons.prems OnTick_settle(1,3) [where inp=inp and g=g and t=t and p=p]
    by (simp_all add: p'_def r_def)
  have IH: "sorted_wrt (\<ge>) (trail inp (after r) p' ts)
            \<and> (\<forall>x\<in>set (trail inp (after r) p' ts). x \<le> POSITION_SL p')"
    using Cons.IH p'(1) by blast
  have eq: "trail inp g p (a # ts) =
              POSITION_SL p # (case fault r of None \<Rightarrow> trail inp (after r) p' ts
                                             | Some e \<Rightarrow> [POSITION_SL p'])"
    unfolding a r_def p'_def by (simp add: Let_def)
  show ?case unfolding eq using IH p'(2) by (auto split: option.splits)
qed

lemma modify_in_trace:
  assumes "PositionSelect t = Some p" "PositionModify sl tp \<in> set (trace (OnTick inp g t))"
  shows "tp = POSITION_TP p \<and>
         (case POSITION_TYPE p of
            POSITION_TYPE_BUY \<Rightarrow>
              sl = SYMBOL_BID t - InpATRMultiplier inp * atrValue g t ! 0 \<and> sl > POSITION_SL p
          | POSITION_TYPE_SELL \<Rightarrow>
              sl = SYMBOL_ASK t + InpATRMultiplier inp * atrValue g t ! 0 \<and> sl < POSITION_SL p)"
  using assms
  by (auto simp add: OnTick_def Let_def long_entry_def short_entry_def manage_long_def
      manage_short_def long_trailing_def short_trailing_def
      split: if_splits ENUM_POSITION_TYPE.splits)

text \<open>
  Claim C4. A \<open>PositionModify\<close> request of a tick with a long position open carries the
  candidate stop bid minus \<open>InpATRMultiplier\<close> times the current ATR, and that candidate
  is strictly above the stop-loss of the position; with a short position it carries ask
  plus the multiple of the ATR, strictly below the stop-loss; the take-profit is the one
  the position has. Over any sequence of ticks, whatever the gateway accepts, the
  stop-loss of a long position never decreases and that of a short position never
  increases.
\<close>

theorem trailing_stop_never_loosens:
  "(PositionSelect t = Some p \<and> PositionModify sl tp \<in> set (trace (OnTick inp g t)) \<longrightarrow>
      tp = POSITION_TP p \<and>
      (case POSITION_TYPE p of
         POSITION_TYPE_BUY \<Rightarrow>
           sl = SYMBOL_BID t - InpATRMultiplier inp * atrValue g t ! 0 \<and> sl > POSITION_SL p
       | POSITION_TYPE_SELL \<Rightarrow>
           sl = SYMBOL_ASK t + InpATRMultiplier inp * atrValue g t ! 0 \<and> sl < POSITION_SL p))
   \<and> (POSITION_TYPE q = POSITION_TYPE_BUY \<longrightarrow> sorted_wrt (\<le>) (trail inp g q ts))
   \<and> (POSITION_TYPE q = POSITION_TYPE_SELL \<longrightarrow> sorted_wrt (\<ge>) (trail inp g q ts))"
  using modify_in_trace [where t=t and p=p and sl=sl and tp=tp and inp=inp and g=g]
    trail_long [where p=q and inp=inp and g=g and ts=ts]
    trail_short [where p=q and inp=inp and g=g and ts=ts]
  by blast

theorem trailing_stop_never_loosens_witness:
  "PositionSelect held_long_terminal = Some demo_long
   \<and> POSITION_TYPE demo_long = POSITION_TYPE_BUY
   \<and> PositionModify 1.197 1.2102
       \<in> set (trace (OnTick default_inputs demo_globals held_long_terminal))
   \<and> 1.197 > POSITION_SL demo_long
   \<and> trail default_inputs demo_globals demo_long
       [(held_long_terminal, True),
        (held_long_terminal\<lparr>iTime := 1700006400, SYMBOL_BID := 1.1990\<rparr>, True),
        (held_long_terminal\<lparr>iTime := 1700010000, SYMBOL_BID := 1.2050\<rparr>, False),
        (held_long_terminal\<lparr>iTime := 1700013600, SYMBOL_BID := 1.2040\<rparr>, True)]
     = [1.195, 1.197, 1.197, 1.197, 1.201]
   \<and> sorted_wrt (\<le>) [1.195, 1.197, 1.197, 1.197, 1.201 :: real]
   \<and> PositionSelect held_short_terminal = Some demo_short
   \<and> POSITION_TYPE demo_short = POSITION_TYPE_SELL
   \<and> PositionModify 1.2032 1.1898
       \<in> set (trace (OnTick default_inputs demo_globals held_short_terminal))
   \<and> 1.2032 < POSITION_SL demo_short
   \<and> trail default_inputs demo_globals demo_short
       [(held_short_terminal, True),
        (held_short_terminal\<lparr>iTime := 1700006400, SYMBOL_ASK := 1.2010\<rparr>, True),
        (held_short_terminal\<lparr>iTime := 1700010000, SYMBOL_ASK := 1.1990\<rparr>, True)]
     = [1.205, 1.2032, 1.2032, 1.202]
   \<and> sorted_wrt (\<ge>) [1.205, 1.2032, 1.2032, 1.202 :: real]"
proof -
  let ?us = "[(held_short_terminal, True),
        (held_short_terminal\<lparr>iTime := 1700006400, SYMBOL_ASK := 1.2010\<rparr>, True),
        (held_short_terminal\<lparr>iTime := 1700010000, SYMBOL_ASK := 1.1990\<rparr>, True)]"
  have k1: "PositionSelect held_short_terminal = Some demo_short" by (simp add: demo_defs)
  have k2: "PositionModify 1.2032 1.1898
              \<in> set (trace (OnTick default_inputs demo_globals held_short_terminal))"
    by (simp add: demo_defs tick_defs)
  have k3: "POSITION_TYPE demo_short = POSITION_TYPE_SELL" by (simp add: demo_defs)
  have k4: "trail default_inputs demo_globals demo_short ?us = [1.205, 1.2032, 1.2032, 1.202]"
    by (simp add: demo_defs tick_defs)
  let ?ts = "[(held_long_terminal, True),
        (held_long_terminal\<lparr>iTime := 1700006400, SYMBOL_BID := 1.1990\<rparr>, True),
        (held_long_terminal\<lparr>iTime := 1700010000, SYMBOL_BID := 1.2050\<rparr>, False),
        (held_long_terminal\<lparr>iTime := 1700013600, SYMBOL_BID := 1.2040\<rparr>, True)]"
  have h1: "PositionSelect held_long_terminal = Some demo_long" by (simp add: demo_defs)
  have h2: "PositionModify 1.197 1.2102
              \<in> set (trace (OnTick default_inputs demo_globals held_long_terminal))"
    by (simp add: demo_defs tick_defs)
  have h3: "POSITION_TYPE demo_long = POSITION_TYPE_BUY" by (simp add: demo_defs)
  have h4: "trail default_inputs demo_globals demo_long ?ts
              = [1.195, 1.197, 1.197, 1.197, 1.201]"
    by (simp add: demo_defs tick_defs)
  show ?thesis
    using h1 h2 h3 h4 k1 k2 k3 k4
      trailing_stop_never_loosens [of held_long_terminal demo_long "1.197" "1.2102"
        default_inputs demo_globals demo_long ?ts]
      trailing_stop_never_loosens [of held_short_terminal demo_short "1.2032" "1.1898"
        default_inputs demo_globals demo_short ?us]
    by (simp add: demo_long_def demo_short_def)
qed

subsection \<open>The holding guard\<close>




subsection \<open>What the new-bar check gates\<close>

text \<open>
  Claim C7. The new-bar check gates the whole tick function, the exits and the trailing
  stop included: on a tick whose hourly bar has the open time of the last processed bar
  nothing is requested and nothing is reported. On a tick that starts a new bar, with
  the indicator values delivered and a position open, the management is carried out: each
  exit condition of a position held long enough makes a close request, and a candidate
  stop strictly tighter than the stop-loss makes a modification request.
\<close>

theorem management_only_on_new_bar:
  "(iTime t = prevBarTime g \<longrightarrow> trace (OnTick inp g t) = [])
   \<and> (hourly_ok g t \<and> iTime t \<noteq> prevBarTime g \<and> PositionSelect t = Some p
        \<and> daily_ok inp t \<and> POSITION_TYPE p = POSITION_TYPE_BUY \<longrightarrow>
        (long_rsi_exit inp t \<and> posDuration t p \<ge> InpMinHoldDuration inp
           \<longrightarrow> PositionClose \<in> set (trace (OnTick inp g t)))
        \<and> (long_trend_exit inp t \<and> posDuration t p \<ge> InpMinHoldDuration inp
           \<longrightarrow> PositionClose \<in> set (trace (OnTick inp g t)))
        \<and> (SYMBOL_BID t - InpATRMultiplier inp * atrValue g t ! 0 > POSITION_SL p
           \<longrightarrow> PositionModify (SYMBOL_BID t - InpATRMultiplier inp * atrValue g t ! 0)
                 (POSITION_TP p) \<in> set (trace (OnTick inp g t))))
   \<and> (hourly_ok g t \<and> iTime t \<noteq> prevBarTime g \<and> PositionSelect t = Some p
        \<and> daily_ok inp t \<and> POSITION_TYPE p = POSITION_TYPE_SELL \<longrightarrow>
        (short_rsi_exit inp t \<and> posDuration t p \<ge> InpMinHoldDuration inp
           \<longrightarrow> PositionClose \<in> set (trace (OnTick inp g t)))
        \<and> (short_trend_exit inp t \<and> posDuration t p \<ge> InpMinHoldDuration inp
           \<longrightarrow> PositionClose \<in> set (trace (OnTick inp g t)))
        \<and> (SYMBOL_ASK t + InpATRMultiplier inp * atrValue g t ! 0 < POSITION_SL p
           \<longrightarrow> PositionModify (SYMBOL_ASK t + InpATRMultiplier inp * atrValue g t ! 0)
                 (POSITION_TP p) \<in> set (trace (OnTick inp g t))))"
proof (intro conjI impI)
  assume "iTime t = prevBarTime g"
  then show "trace (OnTick inp g t) = []" by (simp add: OnTick_same_bar)
qed (simp_all add: OnTick_managed(1) manage_long_def manage_short_def long_trailing_def
      short_trailing_def Let_def)

theorem management_only_on_new_bar_witness:
  "iTime held_long_terminal = prevBarTime (demo_globals\<lparr>prevBarTime := 1700002800\<rparr>)
   \<and> trace (OnTick default_inputs (demo_globals\<lparr>prevBarTime := 1700002800\<rparr>)
              held_long_terminal) = []
   \<and> hourly_ok demo_globals held_long_terminal
   \<and> iTime held_long_terminal \<noteq> prevBarTime demo_globals
   \<and> PositionSelect held_long_terminal = Some demo_long
   \<and> daily_ok default_inputs held_long_terminal
   \<and> POSITION_TYPE demo_long = POSITION_TYPE_BUY
   \<and> long_rsi_exit default_inputs held_long_terminal
   \<and> posDuration held_long_terminal demo_long \<ge> InpMinHoldDuration default_inputs
   \<and> PositionClose \<in> set (trace (OnTick default_inputs demo_globals held_long_terminal))
   \<and> PositionModify 1.197 1.2102
       \<in> set (trace (OnTick default_inputs demo_globals held_long_terminal))
   \<and> hourly_ok demo_globals held_short_terminal
   \<and> iTime held_short_terminal \<noteq> prevBarTime demo_globals
   \<and> PositionSelect held_short_terminal = Some demo_short
   \<and> daily_ok default_inputs held_short_terminal
   \<and> POSITION_TYPE demo_short = POSITION_TYPE_SELL
   \<and> short_rsi_exit default_inputs held_short_terminal
   \<and> posDuration held_short_terminal demo_short \<ge> InpMinHoldDuration default_inputs
   \<and> PositionClose \<in> set (trace (OnTick default_inputs demo_globals held_short_terminal))
   \<and> PositionModify 1.2032 1.1898
       \<in> set (trace (OnTick default_inputs demo_globals held_short_terminal))
   \<and> PositionSelect silver_terminal = Some silver_long
   \<and> long_trend_exit default_inputs silver_terminal
   \<and> posDuration silver_terminal silver_long \<ge> InpMinHoldDuration default_inputs
   \<and> PositionClose \<in> set (trace (OnTick default_inputs demo_globals silver_terminal))
   \<and> PositionSelect silver_short_terminal = Some silver_short
   \<and> short_trend_exit default_inputs silver_short_terminal
   \<and> posDuration silver_short_terminal silver_short \<ge> InpMinHoldDuration default_inputs
   \<and> PositionClose \<in> set (trace (OnTick default_inputs demo_globals silver_short_terminal))"
proof -
  let ?g = "demo_globals\<lparr>prevBarTime := 1700002800\<rparr>"
  have sl: "hourly_ok demo_globals silver_terminal"
    "iTime silver_terminal \<noteq> prevBarTime demo_globals"
    "PositionSelect silver_terminal = Some silver_long"
    "daily_ok default_inputs silver_terminal"
    "POSITION_TYPE silver_long = POSITION_TYPE_BUY"
    "long_trend_exit default_inputs silver_terminal"
    "posDuration silver_terminal silver_long \<ge> InpMinHoldDuration default_inputs"
    by (simp_all add: demo_defs long_trend_exit_def)
  have ss: "hourly_ok demo_globals silver_short_terminal"
    "iTime silver_short_terminal \<noteq> prevBarTime demo_globals"
    "PositionSelect silver_short_terminal = Some silver_short"
    "daily_ok default_inputs silver_short_terminal"
    "POSITION_TYPE silver_short = POSITION_TYPE_SELL"
    "short_trend_exit default_inputs silver_short_terminal"
    "posDuration silver_short_terminal silver_short \<ge> InpMinHoldDuration default_inputs"
    by (simp_all add: demo_defs short_trend_exit_def)
  have s: "iTime held_long_terminal = prevBarTime ?g" by (simp add: demo_defs)
  have h: "hourly_ok demo_globals held_long_terminal"
    "iTime held_long_terminal \<noteq> prevBarTime demo_globals"
    "PositionSelect held_long_terminal = Some demo_long"
    "daily_ok default_inputs held_long_terminal"
    "POSITION_TYPE demo_long = POSITION_TYPE_BUY"
    "long_rsi_exit default_inputs held_long_terminal"
    "posDuration held_long_terminal demo_long \<ge> InpMinHoldDuration default_inputs"
    "SYMBOL_BID held_long_terminal
       - InpATRMultiplier default_inputs * atrValue demo_globals held_long_terminal ! 0 = 1.197"
    "POSITION_SL demo_long = 1.195" "POSITION_TP demo_long = 1.2102"
    by (simp_all add: demo_defs long_rsi_exit_def)
  have k: "hourly_ok demo_globals held_short_terminal"
    "iTime held_short_terminal \<noteq> prevBarTime demo_globals"
    "PositionSelect held_short_terminal = Some demo_short"
    "daily_ok default_inputs held_short_terminal"
    "POSITION_TYPE demo_short = POSITION_TYPE_SELL"
    "short_rsi_exit default_inputs held_short_terminal"
    "posDuration held_short_terminal demo_short \<ge> InpMinHoldDuration default_inputs"
    "SYMBOL_ASK held_short_terminal
       + InpATRMultiplier default_inputs * atrValue demo_globals held_short_terminal ! 0 = 1.2032"
    "POSITION_SL demo_short = 1.205" "POSITION_TP demo_short = 1.1898"
    by (simp_all add: demo_defs short_rsi_exit_def)
  show ?thesis
    using s h(1-7) k(1-7) sl ss
      management_only_on_new_bar [of silver_terminal demo_globals default_inputs silver_long]
      management_only_on_new_bar [of silver_short_terminal demo_globals default_inputs
        silver_short]
      management_only_on_new_bar [of held_long_terminal ?g default_inputs demo_long]
      management_only_on_new_bar [of held_long_terminal demo_globals default_inputs demo_long]
      management_only_on_new_bar [of held_short_terminal demo_globals default_inputs demo_short]
    by (simp add: h(8-10) k(8-10))
qed

text \<open>
  The claim as first stated fails: on a tick of the bar already processed, the long
  position is open and held long enough, the daily RSI crosses the exit level and the
  candidate stop is above the stop-loss, and the tick function does nothing.
\<close>

theorem management_every_tick_counterexample:
  "iTime held_long_terminal = prevBarTime (demo_globals\<lparr>prevBarTime := 1700002800\<rparr>)
   \<and> PositionSelect held_long_terminal = Some demo_long
   \<and> long_rsi_exit default_inputs held_long_terminal
   \<and> posDuration held_long_terminal demo_long \<ge> InpMinHoldDuration default_inputs
   \<and> SYMBOL_BID held_long_terminal
        - InpATRMultiplier default_inputs
            * atrValue (demo_globals\<lparr>prevBarTime := 1700002800\<rparr>) held_long_terminal ! 0
      > POSITION_SL demo_long
   \<and> fault (OnTick default_inputs (demo_globals\<lparr>prevBarTime := 1700002800\<rparr>)
              held_long_terminal) = None
   \<and> trace (OnTick default_inputs (demo_globals\<lparr>prevBarTime := 1700002800\<rparr>)
              held_long_terminal) = []"
  by (simp add: demo_defs tick_defs)

subsection \<open>Missing indicator values\<close>

text \<open>
  Claim C8. The program does not test what \<open>CopyBuffer\<close> delivers. When one of the five
  hourly series holds fewer values than were asked for, the tick function is stopped by
  the read outside the array before any decision: nothing is requested, and the stop is
  a critical error of the program, not a silent tick. When the hourly series are complete,
  the tick starts a new bar, a position is open and one of the two daily series holds
  fewer than three values, the tick function is stopped after the entry logic: the entry
  requests of the tick have been made, and no close or modification request is made.
\<close>

theorem missing_data_stops_tick:
  "(length (atrValue g t) < 1 \<or> length (trendValue g t) < 3 \<or> length (rsiValue g t) < 3
      \<or> length (macdMain g t) < 3 \<or> length (macdSignal g t) < 3 \<longrightarrow>
      fault (OnTick inp g t) = Some ArrayOutOfRange
      \<and> trace (OnTick inp g t) = [] \<and> after (OnTick inp g t) = g)
   \<and> (hourly_ok g t \<and> iTime t \<noteq> prevBarTime g \<and> PositionSelect t = Some p
        \<and> (length (trendValueHigher inp t) < 3 \<or> length (rsiValueHigher inp t) < 3) \<longrightarrow>
      fault (OnTick inp g t) = Some ArrayOutOfRange
      \<and> trace (OnTick inp g t) = long_entry inp g t @ short_entry inp g t
      \<and> filter is_close (trace (OnTick inp g t)) = []
      \<and> filter is_modify (trace (OnTick inp g t)) = [])"
proof -
  have hourly: "fault (OnTick inp g t) = Some ArrayOutOfRange
      \<and> trace (OnTick inp g t) = [] \<and> after (OnTick inp g t) = g"
    if "length (atrValue g t) < 1 \<or> length (trendValue g t) < 3 \<or> length (rsiValue g t) < 3
      \<or> length (macdMain g t) < 3 \<or> length (macdSignal g t) < 3"
  proof -
    from that have "\<not> hourly_ok g t" by (auto simp add: hourly_ok_def)
    then show ?thesis by (simp add: OnTick_def)
  qed
  have daily: "fault (OnTick inp g t) = Some ArrayOutOfRange
      \<and> trace (OnTick inp g t) = long_entry inp g t @ short_entry inp g t
      \<and> filter is_close (trace (OnTick inp g t)) = []
      \<and> filter is_modify (trace (OnTick inp g t)) = []"
    if "hourly_ok g t \<and> iTime t \<noteq> prevBarTime g \<and> PositionSelect t = Some p
        \<and> (length (trendValueHigher inp t) < 3 \<or> length (rsiValueHigher inp t) < 3)"
  proof -
    from that have "\<not> daily_ok inp t" by (auto simp add: daily_ok_def)
    with that show ?thesis
      by (simp add: OnTick_def Let_def entries_no_close entries_no_modify)
  qed
  show ?thesis using hourly daily by blast
qed

theorem missing_data_stops_tick_witness:
  "length (atrValue demo_globals no_atr_terminal) < 1
   \<and> fault (OnTick default_inputs demo_globals no_atr_terminal) = Some ArrayOutOfRange
   \<and> trace (OnTick default_inputs demo_globals no_atr_terminal) = []
   \<and> hourly_ok demo_globals no_daily_terminal
   \<and> iTime no_daily_terminal \<noteq> prevBarTime demo_globals
   \<and> PositionSelect no_daily_terminal = Some demo_long
   \<and> length (rsiValueHigher default_inputs no_daily_terminal) < 3
   \<and> fault (OnTick default_inputs demo_globals no_daily_terminal) = Some ArrayOutOfRange
   \<and> filter is_close (trace (OnTick default_inputs demo_globals no_daily_terminal)) = []
   \<and> filter is_modify (trace (OnTick default_inputs demo_globals no_daily_terminal)) = []"
proof -
  have a: "length (atrValue demo_globals no_atr_terminal) < 1" by (simp add: demo_defs)
  have d: "hourly_ok demo_globals no_daily_terminal"
    "iTime no_daily_terminal \<noteq> prevBarTime demo_globals"
    "PositionSelect no_daily_terminal = Some demo_long"
    "length (rsiValueHigher default_inputs no_daily_terminal) < 3"
    by (simp_all add: demo_defs)
  show ?thesis
    using a d
      missing_data_stops_tick [where g=demo_globals and t=no_atr_terminal
        and inp=default_inputs]
      missing_data_stops_tick [where g=demo_globals and t=no_daily_terminal
        and inp=default_inputs and p=demo_long]
    by (simp add: entries_no_close entries_no_modify)
qed

text \<open>
  The claim as first stated fails: the daily series come back empty on a tick that starts
  a new bar with a position open and the long entry signal present; the \<open>Buy\<close> request
  is made, and then the program is stopped by the critical error.
\<close>

theorem missing_data_counterexample:
  "length (trendValueHigher default_inputs no_daily_terminal) < 3
   \<and> length (rsiValueHigher default_inputs no_daily_terminal) < 3
   \<and> trace (OnTick default_inputs demo_globals no_daily_terminal)
       = [Buy 0.1 1.2002 1.195 1.2102, Print ''Long position opened'']
   \<and> fault (OnTick default_inputs demo_globals no_daily_terminal) = Some ArrayOutOfRange"
  by (simp add: demo_defs tick_defs)

subsection \<open>Close and modification in one tick\<close>

lemma entries_no_management:
  "filter (\<lambda>e. is_close e \<or> is_modify e) (long_entry inp g t) = []"
  "filter (\<lambda>e. is_close e \<or> is_modify e) (short_entry inp g t) = []"
  by (simp_all add: long_entry_def short_entry_def Let_def)

text \<open>
  Claim C9. A close request does not end the management of the tick. On a tick that
  starts a new hourly bar, with the indicator values delivered and a position held for at
  least \<open>InpMinHoldDuration\<close> minutes, the close and modification requests of the tick
  are, in this order: one close request if the RSI exit holds, one close request if the
  trend exit holds, and the modification request of the trailing stop if its candidate
  is strictly tighter than the stop-loss copied from the position, whether or not a close
  request came before it.
\<close>

theorem close_then_trailing:
  assumes "hourly_ok g t" and "iTime t \<noteq> prevBarTime g"
    and "PositionSelect t = Some p" and "daily_ok inp t"
    and "posDuration t p \<ge> InpMinHoldDuration inp"
  shows "(POSITION_TYPE p = POSITION_TYPE_BUY \<longrightarrow>
          filter (\<lambda>e. is_close e \<or> is_modify e) (trace (OnTick inp g t)) =
            (if long_rsi_exit inp t then [PositionClose] else [])
            @ (if long_trend_exit inp t then [PositionClose] else [])
            @ (if SYMBOL_BID t - InpATRMultiplier inp * atrValue g t ! 0 > POSITION_SL p
               then [PositionModify (SYMBOL_BID t - InpATRMultiplier inp * atrValue g t ! 0)
                       (POSITION_TP p)]
               else []))
       \<and> (POSITION_TYPE p = POSITION_TYPE_SELL \<longrightarrow>
          filter (\<lambda>e. is_close e \<or> is_modify e) (trace (OnTick inp g t)) =
            (if short_rsi_exit inp t then [PositionClose] else [])
            @ (if short_trend_exit inp t then [PositionClose] else [])
            @ (if SYMBOL_ASK t + InpATRMultiplier inp * atrValue g t ! 0 < POSITION_SL p
               then [PositionModify (SYMBOL_ASK t + InpATRMultiplier inp * atrValue g t ! 0)
                       (POSITION_TP p)]
               else []))"
  using assms(5)
  by (simp add: OnTick_managed(1) [OF assms(1-4)] entries_no_management manage_long_def
      manage_short_def long_trailing_def short_trailing_def Let_def)

theorem close_then_trailing_witness:
  "hourly_ok demo_globals held_long_terminal
   \<and> iTime held_long_terminal \<noteq> prevBarTime demo_globals
   \<and> PositionSelect held_long_terminal = Some demo_long
   \<and> daily_ok default_inputs held_long_terminal
   \<and> posDuration held_long_terminal demo_long \<ge> InpMinHoldDuration default_inputs
   \<and> POSITION_TYPE demo_long = POSITION_TYPE_BUY
   \<and> filter (\<lambda>e. is_close e \<or> is_modify e)
       (trace (OnTick default_inputs demo_globals held_long_terminal))
     = [PositionClose, PositionModify 1.197 1.2102]
   \<and> hourly_ok demo_globals held_short_terminal
   \<and> iTime held_short_terminal \<noteq> prevBarTime demo_globals
   \<and> PositionSelect held_short_terminal = Some demo_short
   \<and> daily_ok default_inputs held_short_terminal
   \<and> posDuration held_short_terminal demo_short \<ge> InpMinHoldDuration default_inputs
   \<and> POSITION_TYPE demo_short = POSITION_TYPE_SELL
   \<and> filter (\<lambda>e. is_close e \<or> is_modify e)
       (trace (OnTick default_inputs demo_globals held_short_terminal))
     = [PositionClose, PositionModify 1.2032 1.1898]
   \<and> PositionSelect silver_terminal = Some silver_long
   \<and> long_rsi_exit default_inputs silver_terminal
   \<and> long_trend_exit default_inputs silver_terminal
   \<and> filter (\<lambda>e. is_close e \<or> is_modify e)
       (trace (OnTick default_inputs demo_globals silver_terminal))
     = [PositionClose, PositionClose]
   \<and> PositionSelect silver_short_terminal = Some silver_short
   \<and> short_trend_exit default_inputs silver_short_terminal
   \<and> filter (\<lambda>e. is_close e \<or> is_modify e)
       (trace (OnTick default_inputs demo_globals silver_short_terminal))
     = [PositionClose, PositionModify 16.12 15]"
proof -
  have s1: "hourly_ok demo_globals silver_terminal" by (simp add: demo_defs)
  have s2: "iTime silver_terminal \<noteq> prevBarTime demo_globals" by (simp add: demo_defs)
  have s3: "PositionSelect silver_terminal = Some silver_long" by (simp add: demo_defs)
  have s4: "daily_ok default_inputs silver_terminal" by (simp add: demo_defs)
  have s5: "posDuration silver_terminal silver_long \<ge> InpMinHoldDuration default_inputs"
    by (simp add: demo_defs)
  have u1: "hourly_ok demo_globals silver_short_terminal" by (simp add: demo_defs)
  have u2: "iTime silver_short_terminal \<noteq> prevBarTime demo_globals" by (simp add: demo_defs)
  have u3: "PositionSelect silver_short_terminal = Some silver_short" by (simp add: demo_defs)
  have u4: "daily_ok default_inputs silver_short_terminal" by (simp add: demo_defs)
  have u5: "posDuration silver_short_terminal silver_short \<ge> InpMinHoldDuration default_inputs"
    by (simp add: demo_defs)
  have w: "long_rsi_exit default_inputs silver_terminal"
    "long_trend_exit default_inputs silver_terminal"
    "\<not> short_rsi_exit default_inputs silver_short_terminal"
    "short_trend_exit default_inputs silver_short_terminal"
    "POSITION_TYPE silver_long = POSITION_TYPE_BUY"
    "POSITION_TYPE silver_short = POSITION_TYPE_SELL"
    "SYMBOL_BID silver_terminal
       - InpATRMultiplier default_inputs * atrValue demo_globals silver_terminal ! 0 = 15.8"
    "SYMBOL_ASK silver_short_terminal
       + InpATRMultiplier default_inputs * atrValue demo_globals silver_short_terminal ! 0
     = 16.12"
    "POSITION_SL silver_long = 15.9" "POSITION_TP silver_long = 17"
    "POSITION_SL silver_short = 16.5" "POSITION_TP silver_short = 15"
    by (simp_all add: demo_defs long_rsi_exit_def long_trend_exit_def short_rsi_exit_def
        short_trend_exit_def)
  have h1: "hourly_ok demo_globals held_long_terminal" by (simp add: demo_defs)
  have h2: "iTime held_long_terminal \<noteq> prevBarTime demo_globals" by (simp add: demo_defs)
  have h3: "PositionSelect held_long_terminal = Some demo_long" by (simp add: demo_defs)
  have h4: "daily_ok default_inputs held_long_terminal" by (simp add: demo_defs)
  have h5: "posDuration held_long_terminal demo_long \<ge> InpMinHoldDuration default_inputs"
    by (simp add: demo_defs)
  have k1: "hourly_ok demo_globals held_short_terminal" by (simp add: demo_defs)
  have k2: "iTime held_short_terminal \<noteq> prevBarTime demo_globals" by (simp add: demo_defs)
  have k3: "PositionSelect held_short_terminal = Some demo_short" by (simp add: demo_defs)
  have k4: "daily_ok default_inputs held_short_terminal" by (simp add: demo_defs)
  have k5: "posDuration held_short_terminal demo_short \<ge> InpMinHoldDuration default_inputs"
    by (simp add: demo_defs)
  have v: "long_rsi_exit default_inputs held_long_terminal"
    "\<not> long_trend_exit default_inputs held_long_terminal"
    "short_rsi_exit default_inputs held_short_terminal"
    "\<not> short_trend_exit default_inputs held_short_terminal"
    "POSITION_TYPE demo_long = POSITION_TYPE_BUY"
    "POSITION_TYPE demo_short = POSITION_TYPE_SELL"
    "SYMBOL_BID held_long_terminal
       - InpATRMultiplier default_inputs * atrValue demo_globals held_long_terminal ! 0 = 1.197"
    "SYMBOL_ASK held_short_terminal
       + InpATRMultiplier default_inputs * atrValue demo_globals held_short_terminal ! 0 = 1.2032"
    "POSITION_SL demo_long = 1.195" "POSITION_TP demo_long = 1.2102"
    "POSITION_SL demo_short = 1.205" "POSITION_TP demo_short = 1.1898"
    by (simp_all add: demo_defs long_rsi_exit_def long_trend_exit_def short_rsi_exit_def
        short_trend_exit_def)
  show ?thesis
    using h1 h2 h3 h4 h5 k1 k2 k3 k4 k5 s3 u3
      close_then_trailing [OF h1 h2 h3 h4 h5] close_then_trailing [OF k1 k2 k3 k4 k5]
      close_then_trailing [OF s1 s2 s3 s4 s5] close_then_trailing [OF u1 u2 u3 u4 u5]
    by (simp add: v w)
qed

text \<open>
  The claim as first stated fails: the long position is closed by the RSI exit, and
  the same tick then asks the gateway to move the stop of that position.
\<close>

theorem close_short_circuit_counterexample:
  "trace (OnTick default_inputs demo_globals held_long_terminal)
     = [PositionClose,
        Print ''Long position closed due to RSI crossing above exit level'',
        PositionModify 1.197 1.2102,
        PrintValue ''Long position ATR-based trailing stop updated to: '' 1.197]"
  by (simp add: demo_defs tick_defs)

subsection \<open>Entries and the open position\<close>

lemma signals_exclusive: "\<not> (long_signal inp g t \<and> short_signal inp g t)"
  by (auto simp add: long_signal_def short_signal_def)

lemma open_long_needs_signal:
  "\<exists>e\<in>set (trace (OnTick inp g t)). is_open_long e \<Longrightarrow> long_signal inp g t"
  by (auto simp add: OnTick_def Let_def long_entry_def short_entry_def manage_long_def
      manage_short_def long_trailing_def short_trailing_def
      split: if_splits option.splits ENUM_POSITION_TYPE.splits)

lemma open_short_needs_signal:
  "\<exists>e\<in>set (trace (OnTick inp g t)). is_open_short e \<Longrightarrow> short_signal inp g t"
  by (auto simp add: OnTick_def Let_def long_entry_def short_entry_def manage_long_def
      manage_short_def long_trailing_def short_trailing_def
      split: if_splits option.splits ENUM_POSITION_TYPE.splits)

lemma entry_with_position:
  assumes "hourly_ok g t" "iTime t \<noteq> prevBarTime g"
  shows "long_signal inp g t \<Longrightarrow>
           Buy (InpLotSize inp) (SYMBOL_ASK t)
             (SYMBOL_BID t - real_of_int (InpStopLoss inp) * SYMBOL_POINT t)
             (SYMBOL_ASK t + real_of_int (InpTakeProfit inp) * SYMBOL_POINT t)
           \<in> set (trace (OnTick inp g t))"
    and "short_signal inp g t \<Longrightarrow>
           Sell (InpLotSize inp) (SYMBOL_BID t)
             (SYMBOL_ASK t + real_of_int (InpStopLoss inp) * SYMBOL_POINT t)
             (SYMBOL_BID t - real_of_int (InpTakeProfit inp) * SYMBOL_POINT t)
           \<in> set (trace (OnTick inp g t))"
  using assms
  by (simp_all add: OnTick_def Let_def long_entry_def short_entry_def
      split: option.splits)

lemma manage_no_entry:
  "filter is_entry (manage_long inp g t p) = []" "filter is_entry (manage_short inp g t p) = []"
  by (simp_all add: is_entry_def manage_long_def manage_short_def long_trailing_def
      short_trailing_def Let_def)

lemma entries_of_tick:
  "filter is_entry (trace (OnTick inp g t)) =
     (if hourly_ok g t \<and> iTime t \<noteq> prevBarTime g
      then filter is_entry (long_entry inp g t @ short_entry inp g t) else [])"
  by (simp add: OnTick_def Let_def manage_no_entry
      split: option.splits ENUM_POSITION_TYPE.splits)

lemma entries_whatever_position:
  "filter is_entry (trace (OnTick inp g (t\<lparr>PositionSelect := ps\<rparr>))) =
   filter is_entry (trace (OnTick inp g t))"
  by (simp add: entries_of_tick hourly_ok_def atrValue_def trendValue_def rsiValue_def
      macdMain_def macdSignal_def long_entry_def short_entry_def long_signal_def
      short_signal_def)

text \<open>
  Claim C10. The entry logic never looks at the open position: on a tick that starts a
  new hourly bar, with the hourly indicator values delivered, the long signal makes the
  \<open>Buy\<close> request and the short signal makes the \<open>Sell\<close> request also when a position is
  open, and the entry requests of a tick are the same whatever position the terminal
  reports. The two signals exclude each other, since one needs the trend average
  to rise and the other needs it to fall: no tick makes both a \<open>Buy\<close> and a \<open>Sell\<close>
  request.
\<close>

theorem entry_ignores_position:
  "\<not> ((\<exists>e\<in>set (trace (OnTick inp g t)). is_open_long e)
       \<and> (\<exists>e\<in>set (trace (OnTick inp g t)). is_open_short e))
   \<and> (hourly_ok g t \<and> iTime t \<noteq> prevBarTime g \<and> PositionSelect t = Some p
        \<and> trendValue g t ! 0 > trendValue g t ! 1
        \<and> rsiValue g t ! 0 > InpRSILowerLevel inp \<and> rsiValue g t ! 1 \<le> InpRSILowerLevel inp
      \<longrightarrow> Buy (InpLotSize inp) (SYMBOL_ASK t)
            (SYMBOL_BID t - real_of_int (InpStopLoss inp) * SYMBOL_POINT t)
            (SYMBOL_ASK t + real_of_int (InpTakeProfit inp) * SYMBOL_POINT t)
          \<in> set (trace (OnTick inp g t)))
   \<and> (hourly_ok g t \<and> iTime t \<noteq> prevBarTime g \<and> PositionSelect t = Some p
        \<and> trendValue g t ! 0 < trendValue g t ! 1
        \<and> rsiValue g t ! 0 < InpRSIUpperLevel inp \<and> rsiValue g t ! 1 \<ge> InpRSIUpperLevel inp
      \<longrightarrow> Sell (InpLotSize inp) (SYMBOL_BID t)
            (SYMBOL_ASK t + real_of_int (InpStopLoss inp) * SYMBOL_POINT t)
            (SYMBOL_BID t - real_of_int (InpTakeProfit inp) * SYMBOL_POINT t)
          \<in> set (trace (OnTick inp g t)))
   \<and> filter is_entry (trace (OnTick inp g (t\<lparr>PositionSelect := ps\<rparr>))) =
       filter is_entry (trace (OnTick inp g t))"
proof -
  have "\<not> ((\<exists>e\<in>set (trace (OnTick inp g t)). is_open_long e)
       \<and> (\<exists>e\<in>set (trace (OnTick inp g t)). is_open_short e))"
    using open_long_needs_signal [where inp=inp and g=g and t=t]
      open_short_needs_signal [where inp=inp and g=g and t=t]
      signals_exclusive [where inp=inp and g=g and t=t]
    by blast
  then show ?thesis
    using entry_with_position [where g=g and t=t and inp=inp] entries_whatever_position [where inp=inp and g=g and t=t and ps=ps]
    by (simp add: long_signal_def short_signal_def)
qed

theorem entry_ignores_position_witness:
  "hourly_ok demo_globals (demo_terminal\<lparr>PositionSelect := Some demo_long\<rparr>)
   \<and> iTime (demo_terminal\<lparr>PositionSelect := Some demo_long\<rparr>) \<noteq> prevBarTime demo_globals
   \<and> PositionSelect (demo_terminal\<lparr>PositionSelect := Some demo_long\<rparr>) = Some demo_long
   \<and> long_signal default_inputs demo_globals (demo_terminal\<lparr>PositionSelect := Some demo_long\<rparr>)
   \<and> Buy 0.1 1.2002 1.195 1.2102
       \<in> set (trace (OnTick default_inputs demo_globals
                       (demo_terminal\<lparr>PositionSelect := Some demo_long\<rparr>)))
   \<and> \<not> (\<exists>e\<in>set (trace (OnTick default_inputs demo_globals
                         (demo_terminal\<lparr>PositionSelect := Some demo_long\<rparr>))).
          is_open_short e)
   \<and> hourly_ok demo_globals (falling_terminal\<lparr>PositionSelect := Some demo_short\<rparr>)
   \<and> iTime (falling_terminal\<lparr>PositionSelect := Some demo_short\<rparr>) \<noteq> prevBarTime demo_globals
   \<and> short_signal default_inputs demo_globals
       (falling_terminal\<lparr>PositionSelect := Some demo_short\<rparr>)
   \<and> Sell 0.1 1.1998 1.205 1.1898
       \<in> set (trace (OnTick default_inputs demo_globals
                       (falling_terminal\<lparr>PositionSelect := Some demo_short\<rparr>)))"
proof -
  let ?t = "demo_terminal\<lparr>PositionSelect := Some demo_long\<rparr>"
  let ?u = "falling_terminal\<lparr>PositionSelect := Some demo_short\<rparr>"
  have h: "hourly_ok demo_globals ?t" "iTime ?t \<noteq> prevBarTime demo_globals"
    "long_signal default_inputs demo_globals ?t"
    by (simp_all add: demo_defs long_signal_def)
  have k: "hourly_ok demo_globals ?u" "iTime ?u \<noteq> prevBarTime demo_globals"
    "short_signal default_inputs demo_globals ?u"
    by (simp_all add: demo_defs short_signal_def)
  have b: "\<exists>e\<in>set (trace (OnTick default_inputs demo_globals ?t)). is_open_long e"
    by (simp add: demo_defs tick_defs)
  show ?thesis
    using h k b
      entry_ignores_position [where inp=default_inputs and g=demo_globals and t="?t"
        and p=demo_long and ps=None]
      entry_ignores_position [where inp=default_inputs and g=demo_globals and t="?u"
        and p=demo_short and ps=None]
    by (simp add: demo_defs long_signal_def short_signal_def)
qed

text \<open>
  The claim as first stated fails in its first half: there is no tick on which both an
  open-long and an open-short request are made.
\<close>

theorem both_entries_counterexample:
  "\<not> (\<exists>inp g t. (\<exists>e\<in>set (trace (OnTick inp g t)). is_open_long e)
                 \<and> (\<exists>e\<in>set (trace (OnTick inp g t)). is_open_short e))"
  using open_long_needs_signal open_short_needs_signal signals_exclusive by blast

end
